theory Spec2Isabelle
  imports Complex_Main "HOL-Library.Sublist"
begin

section \<open>Python values\<close>

text \<open>
  A value produced by \<^verbatim>\<open>json.loads\<close>, and the value \<^verbatim>\<open>None\<close> that
  \<^verbatim>\<open>WebSocketManager.stop\<close> puts into a queue. A dict is an association list read
  with \<open>map_of\<close>. A float is represented by a rational: the code only tests floats for
  truthiness and for equality with 200, and the non-finite floats behave there like any
  rational other than 0 and 200.
\<close>

datatype json =
    JNull
  | JBool bool
  | JInt int
  | JFloat rat
  | JStr string
  | JArr "json list"
  | JObj "(string \<times> json) list"

text \<open>Python truthiness (\<^verbatim>\<open>if x\<close>, \<^verbatim>\<open>not x\<close>, \<^verbatim>\<open>x and y\<close>).\<close>

fun truthy :: "json \<Rightarrow> bool" where
  "truthy JNull = False"
| "truthy (JBool b) = b"
| "truthy (JInt i) = (i \<noteq> 0)"
| "truthy (JFloat r) = (r \<noteq> 0)"
| "truthy (JStr s) = (s \<noteq> [])"
| "truthy (JArr xs) = (xs \<noteq> [])"
| "truthy (JObj kvs) = (kvs \<noteq> [])"

text \<open>\<^verbatim>\<open>x == 200\<close>: an int or a float of that value (\<^verbatim>\<open>True == 1\<close>, never 200).\<close>

fun is_200 :: "json \<Rightarrow> bool" where
  "is_200 (JInt i) = (i = 200)"
| "is_200 (JFloat r) = (r = 200)"
| "is_200 _ = False"

text \<open>\<^verbatim>\<open>d.get(k, default)\<close> on a dict.\<close>

definition get_or :: "(string \<times> json) list \<Rightarrow> string \<Rightarrow> json \<Rightarrow> json" where
  "get_or kvs k dflt = (case map_of kvs k of None \<Rightarrow> dflt | Some v \<Rightarrow> v)"

text \<open>
  The exceptions the modelled code raises or catches. The detail of an
  \<^verbatim>\<open>HTTPException\<close> is a value, or \<open>ExceptionText\<close> where the code passes
  \<^verbatim>\<open>str(e)\<close> of the exception it is handling.
\<close>

datatype detail = Detail json | ExceptionText

datatype py_error =
    HTTPException nat detail
  | NameError string
  | KeyError string
  | TypeError
  | AttributeError
  | QueueFull

text \<open>
  What decoding an inbound frame gives: the parsed value, \<^verbatim>\<open>json.JSONDecodeError\<close>,
  or another exception (\<^verbatim>\<open>UnicodeDecodeError\<close> of a binary frame, \<^verbatim>\<open>RecursionError\<close>).
  The decoder itself is library code and a parameter of the model.
\<close>

datatype decoded = Decoded json | JSONDecodeError | DecodeFailure

section \<open>asyncio.Queue\<close>

text \<open>
  \<^verbatim>\<open>asyncio.Queue(maxsize=0)\<close>: \<^verbatim>\<open>full()\<close> is
  \<^verbatim>\<open>False if maxsize <= 0 else qsize() >= maxsize\<close>, and \<^verbatim>\<open>put_nowait\<close> raises
  \<^verbatim>\<open>QueueFull\<close> when full and appends otherwise. A queue object is always truthy
  (the class defines neither \<^verbatim>\<open>__len__\<close> nor \<^verbatim>\<open>__bool__\<close>).
\<close>

record queue =
  maxsize :: int
  items :: "json list"

definition new_queue :: queue where
  "new_queue = \<lparr>maxsize = 0, items = []\<rparr>"

definition full :: "queue \<Rightarrow> bool" where
  "full q = (if maxsize q \<le> 0 then False else maxsize q \<le> int (length (items q)))"

definition put_nowait :: "queue \<Rightarrow> json \<Rightarrow> py_error + queue" where
  "put_nowait q x = (if full q then Inl QueueFull else Inr (q\<lparr>items := items q @ [x]\<rparr>))"

section \<open>State\<close>

text \<open>
  Everything the program does besides changing its dictionaries: the log lines (level and
  the constant part of the message), the frames written to the socket, the connection
  attempts, the sleeps, and the insertions into and removals from \<^verbatim>\<open>listeners\<close>.
\<close>

datatype level = LInfo | LSuccess | LWarn | LError

datatype event =
    Log level string
  | Registered string
  | Unregistered string
  | Sent string string
  | ConnectAttempt bool
  | SocketClosed bool
  | Slept nat

text \<open>
  The fields of \<^verbatim>\<open>WebSocketManager\<close>, the \<^verbatim>\<open>queues\<close> dictionaries of the
  \<^verbatim>\<open>RequestManager\<close> and the \<^verbatim>\<open>StreamManager\<close>, and the address list of the
  \<^verbatim>\<open>AuthenticationManager\<close>. Queues are objects shared between dictionaries, so
  the dictionaries hold references into \<open>store\<close>; \<open>next_ref\<close> is the next unused
  reference. \<open>connection\<close> is \<^verbatim>\<open>self.connection is not None\<close>.
\<close>

record sys =
  connection :: bool
  listeners :: "string \<rightharpoonup> nat"
  stream_queues :: "string \<rightharpoonup> nat"
  running :: bool
  current_retry :: nat
  reconnect_delay :: nat
  max_retries :: nat
  store :: "nat \<Rightarrow> queue"
  next_ref :: nat
  request_queues :: "string \<rightharpoonup> nat"
  stream_manager_queues :: "string \<rightharpoonup> nat"
  authenticated_addresses :: "string list"
  trace :: "event list"

definition emit :: "event \<Rightarrow> sys \<Rightarrow> sys" where
  "emit e s = s\<lparr>trace := trace s @ [e]\<rparr>"

text \<open>The state after the constructors of \<^verbatim>\<open>main.py\<close> have run (\<^verbatim>\<open>WS_CONFIG\<close>: delay 3, 5 retries).\<close>

definition init :: sys where
  "init = \<lparr>connection = False, listeners = Map.empty, stream_queues = Map.empty,
           running = False, current_retry = 0, reconnect_delay = 3, max_retries = 5,
           store = (\<lambda>_. new_queue), next_ref = 0,
           request_queues = Map.empty, stream_manager_queues = Map.empty,
           authenticated_addresses = [], trace = []\<rparr>"

section \<open>WebSocketManager: the registry and the router\<close>

text \<open>\<^verbatim>\<open>register_listener\<close>: the queue already registered, or a new \<^verbatim>\<open>asyncio.Queue()\<close>.\<close>

definition register_listener :: "sys \<Rightarrow> string \<Rightarrow> nat \<times> sys" where
  "register_listener s request_id =
     (case listeners s request_id of
        None \<Rightarrow>
          (let r = next_ref s;
               s1 = s\<lparr>store := (store s)(r := new_queue), next_ref := Suc r\<rparr>;
               s2 = emit (Registered request_id) (s1\<lparr>listeners := (listeners s1)(request_id \<mapsto> r)\<rparr>)
           in (r, emit (Log LInfo ''Registered new listener for request_id'') s2))
      | Some r \<Rightarrow> (r, emit (Log LInfo ''Using existing queue for request_id'') s))"

definition unregister_listener :: "sys \<Rightarrow> string \<Rightarrow> sys" where
  "unregister_listener s request_id =
     (if listeners s request_id \<noteq> None
      then emit (Log LInfo ''Unregistered listener for request_id'')
             (emit (Unregistered request_id) (s\<lparr>listeners := (listeners s)(request_id := None)\<rparr>))
      else s)"

text \<open>
  \<^verbatim>\<open>_route_message\<close> once \<^verbatim>\<open>requestId\<close> is known to be a string: look the queue up
  in \<^verbatim>\<open>listeners\<close>, then in \<^verbatim>\<open>stream_queues\<close>; \<^verbatim>\<open>put_nowait\<close>; unregister on
  a truthy \<^verbatim>\<open>isStreamEnd\<close>. Rewriting \<^verbatim>\<open>data["response"]\<close> leaves \<open>data\<close> as it is:
  a parsed value holds no \<^verbatim>\<open>bytes\<close>.
\<close>

definition deliver :: "sys \<Rightarrow> string \<Rightarrow> (string \<times> json) list \<Rightarrow> sys" where
  "deliver s request_id kvs =
     (let is_stream_end = get_or kvs ''isStreamEnd'' (JBool False);
          found = (case listeners s request_id of
                     Some r \<Rightarrow> Some r
                   | None \<Rightarrow> stream_queues s request_id)
      in case found of
           None \<Rightarrow> emit (Log LError ''No queue found for request_id'') s
         | Some r \<Rightarrow>
            (case put_nowait (store s r) (JObj kvs) of
               Inl _ \<Rightarrow> emit (Log LError ''Queue full for request_id'') s
             | Inr q \<Rightarrow>
                (let s1 = emit (Log LInfo ''Message routed to queue for request_id'')
                            (s\<lparr>store := (store s)(r := q)\<rparr>)
                 in if truthy is_stream_end
                    then unregister_listener
                           (emit (Log LInfo ''Stream end detected for request_id'') s1) request_id
                    else s1)))"

text \<open>
  \<^verbatim>\<open>_route_message\<close>. A parsed value that is not a dict has no \<^verbatim>\<open>get\<close>
  (\<^verbatim>\<open>AttributeError\<close>), and a list or dict as \<^verbatim>\<open>requestId\<close> is unhashable
  (\<^verbatim>\<open>TypeError\<close> in \<^verbatim>\<open>self.listeners.get\<close>): both reach the outer handler. A number
  or \<^verbatim>\<open>True\<close> as \<^verbatim>\<open>requestId\<close> equals no key of the two dictionaries, whose keys
  are strings.
\<close>

definition route_message :: "(string \<Rightarrow> decoded) \<Rightarrow> sys \<Rightarrow> string \<Rightarrow> sys" where
  "route_message loads s message =
     (case loads message of
        JSONDecodeError \<Rightarrow> emit (Log LError ''JSON decode error'') s
      | DecodeFailure \<Rightarrow> emit (Log LError ''Error processing message'') s
      | Decoded (JObj kvs) \<Rightarrow>
          (case map_of kvs ''requestId'' of
             None \<Rightarrow> emit (Log LWarn ''Received message without request ID'') s
           | Some request_id \<Rightarrow>
               if \<not> truthy request_id
               then emit (Log LWarn ''Received message without request ID'') s
               else (case request_id of
                       JStr rid \<Rightarrow> deliver s rid kvs
                     | JArr _ \<Rightarrow> emit (Log LError ''Error processing message'') s
                     | JObj _ \<Rightarrow> emit (Log LError ''Error processing message'') s
                     | _ \<Rightarrow> emit (Log LError ''No queue found for request_id'') s))
      | Decoded _ \<Rightarrow> emit (Log LError ''Error processing message'') s)"

section \<open>WebSocketManager: the connection\<close>

text \<open>
  What the socket does during one call or one iteration of the receive loop: the outcome
  of \<^verbatim>\<open>websockets.connect\<close>, of \<^verbatim>\<open>connection.send\<close>, of
  \<^verbatim>\<open>connection.close\<close> and of \<^verbatim>\<open>connection.recv\<close>. A field is read only when
  the code makes that call. \<^verbatim>\<open>ConnectionClosedError\<close> is a subclass of
  \<^verbatim>\<open>ConnectionClosed\<close> and is caught by the handler of the latter.
\<close>

datatype handshake = Established | InvalidStatusCode | HandshakeClosed | HandshakeError

datatype recv_result = Frame string | ConnectionClosed | Cancelled | RecvError

record io =
  handshake :: handshake
  write_ok :: bool
  close_ok :: bool
  recv :: recv_result

definition connect :: "handshake \<Rightarrow> sys \<Rightarrow> bool \<times> sys" where
  "connect h s =
     (let s1 = emit (ConnectAttempt (h = Established))
                 (emit (Log LInfo ''Attempting to connect to WebSocket server'') s)
      in case h of
           Established \<Rightarrow>
             (True, (emit (Log LSuccess ''WebSocket connection established successfully'')
                       (s1\<lparr>connection := True\<rparr>))\<lparr>current_retry := 0\<rparr>)
         | InvalidStatusCode \<Rightarrow> (False, emit (Log LError ''Invalid status code from server'') s1)
         | HandshakeClosed \<Rightarrow> (False, emit (Log LError ''Connection closed during handshake'') s1)
         | HandshakeError \<Rightarrow> (False, emit (Log LError ''Failed to connect to WebSocket server'') s1))"

definition close :: "bool \<Rightarrow> sys \<Rightarrow> sys" where
  "close ok s =
     (let s1 = (if connection s
                then (if ok
                      then emit (Log LInfo ''WebSocket connection closed successfully'')
                             (emit (SocketClosed True) s)
                      else emit (Log LError ''Error during connection close'')
                             (emit (SocketClosed False) s))
                else s)
      in s1\<lparr>running := False, connection := False\<rparr>)"

text \<open>The part of \<^verbatim>\<open>send\<close> after the connection check: the write, and its handler.\<close>

definition write_frame :: "io \<Rightarrow> sys \<Rightarrow> string \<Rightarrow> string \<Rightarrow> bool \<times> sys" where
  "write_frame e s message request_id =
     (if write_ok e
      then (True, emit (Log LInfo ''Sent message'') (emit (Sent request_id message) s))
      else (False, close (close_ok e) (emit (Log LError ''Failed to send message'') s)))"

definition send :: "io \<Rightarrow> sys \<Rightarrow> string \<Rightarrow> string \<Rightarrow> bool \<times> sys" where
  "send e s message request_id =
     (if \<not> connection s \<or> \<not> running s
      then (case connect (handshake e) s of
              (False, s1) \<Rightarrow>
                (False, emit (Log LError
                   ''Failed to send message - WebSocket connection not available'') s1)
            | (True, s1) \<Rightarrow> write_frame e s1 message request_id)
      else write_frame e s message request_id)"

text \<open>
  One iteration of the loop of \<^verbatim>\<open>_listen\<close>, entered with \<^verbatim>\<open>self.running\<close> true.
  The result says whether the iteration left the loop by \<^verbatim>\<open>break\<close>.
\<close>

definition listen_iteration :: "(string \<Rightarrow> decoded) \<Rightarrow> io \<Rightarrow> sys \<Rightarrow> bool \<times> sys" where
  "listen_iteration loads e s =
     (case (if \<not> connection s \<or> \<not> running s then connect (handshake e) s else (True, s)) of
        (False, s1) \<Rightarrow>
          (False, emit (Slept (reconnect_delay s1))
                    (emit (Log LError ''Failed to reconnect - retrying'') s1))
      | (True, s1) \<Rightarrow>
          (case recv e of
             Frame message \<Rightarrow>
               (False, (route_message loads (emit (Log LInfo ''Received message'') s1) message)
                          \<lparr>current_retry := 0\<rparr>)
           | ConnectionClosed \<Rightarrow>
               (False, close (close_ok e) (emit (Log LWarn ''WebSocket connection closed'') s1))
           | Cancelled \<Rightarrow> (True, emit (Log LInfo ''Message listener cancelled'') s1)
           | RecvError \<Rightarrow>
               (let s2 = (emit (Log LError ''Error processing message'') s1)
                           \<lparr>current_retry := Suc (current_retry s1)\<rparr>
                in if max_retries s2 \<le> current_retry s2
                   then (True, emit (Log LError ''Max retries reached - stopping listener'') s2)
                   else (False, emit (Slept (reconnect_delay s2)) s2))))"

text \<open>The two statements after the loop.\<close>

definition listener_stopped :: "sys \<Rightarrow> sys" where
  "listener_stopped s = (emit (Log LInfo ''WebSocket message listener stopped'') s)\<lparr>running := False\<rparr>"

text \<open>
  \<^verbatim>\<open>_listen\<close>, run against the socket's behaviour in its successive iterations.
  \<open>Stopped\<close>: the loop was left and the task ended. \<open>Listening\<close>: the loop went
  through every given iteration and is still running.
\<close>

datatype listen_end = Stopped | Listening

fun listen :: "(string \<Rightarrow> decoded) \<Rightarrow> sys \<Rightarrow> io list \<Rightarrow> listen_end \<times> sys" where
  "listen loads s [] = (if running s then (Listening, s) else (Stopped, listener_stopped s))"
| "listen loads s (e # es) =
     (if running s
      then (case listen_iteration loads e s of
              (True, s1) \<Rightarrow> (Stopped, listener_stopped s1)
            | (False, s1) \<Rightarrow> listen loads s1 es)
      else (Stopped, listener_stopped s))"

text \<open>\<^verbatim>\<open>start_listening\<close> on a manager without a task sets \<^verbatim>\<open>running\<close> and starts \<^verbatim>\<open>_listen\<close>.\<close>

definition start_listening :: "sys \<Rightarrow> sys" where
  "start_listening s = emit (Log LInfo ''Started message listener'') (s\<lparr>running := True\<rparr>)"

text \<open>The frames the receive loop routes, in order, while another task is suspended.\<close>

definition receive :: "(string \<Rightarrow> decoded) \<Rightarrow> sys \<Rightarrow> string list \<Rightarrow> sys" where
  "receive loads s inbound = foldl (route_message loads) s inbound"

section \<open>BaseManager\<close>

text \<open>
  The two subclasses of \<^verbatim>\<open>BaseManager\<close> that \<^verbatim>\<open>main.py\<close> instantiates; each
  instance has its own \<^verbatim>\<open>queues\<close> dictionary.
\<close>

datatype manager = RequestManager | StreamManager

fun queues :: "manager \<Rightarrow> sys \<Rightarrow> (string \<rightharpoonup> nat)" where
  "queues RequestManager s = request_queues s"
| "queues StreamManager s = stream_manager_queues s"

fun set_queues :: "manager \<Rightarrow> (string \<rightharpoonup> nat) \<Rightarrow> sys \<Rightarrow> sys" where
  "set_queues RequestManager qs s = s\<lparr>request_queues := qs\<rparr>"
| "set_queues StreamManager qs s = s\<lparr>stream_manager_queues := qs\<rparr>"

definition create_queue :: "manager \<Rightarrow> sys \<Rightarrow> string \<Rightarrow> nat \<times> sys" where
  "create_queue m s request_id =
     (case register_listener (emit (Log LInfo ''Creating queue for request_id'') s) request_id of
        (r, s1) \<Rightarrow> (r, set_queues m ((queues m s1)(request_id \<mapsto> r)) s1))"

definition cleanup_queue :: "manager \<Rightarrow> sys \<Rightarrow> string \<Rightarrow> sys" where
  "cleanup_queue m s request_id =
     (let s1 = unregister_listener (emit (Log LInfo ''Cleaning up queue for request_id'') s)
                 request_id
      in set_queues m ((queues m s1)(request_id := None)) s1)"

text \<open>
  What \<^verbatim>\<open>wait_for_response\<close> does with a response taken from the queue. A value
  that is not a dict has no \<^verbatim>\<open>get\<close>: whether it is truthy or not, one of the two
  \<^verbatim>\<open>response.get\<close> calls raises \<^verbatim>\<open>AttributeError\<close>.
\<close>

fun check_response :: "json \<Rightarrow> py_error + json" where
  "check_response (JObj kvs) =
     (if truthy (JObj kvs) \<and> is_200 (get_or kvs ''code'' JNull)
      then Inr (JObj kvs)
      else Inl (HTTPException 500 (Detail (get_or kvs ''message'' (JStr ''Unknown error'')))))"
| "check_response _ = Inl AttributeError"

text \<open>
  \<^verbatim>\<open>wait_for_response\<close>. The race of \<^verbatim>\<open>queue.get()\<close> against
  \<^verbatim>\<open>asyncio.sleep(timeout)\<close> is decided by the queue when the wait resolves: the
  response task is done when a message has been delivered, and the timeout task is the
  one done when the queue is still empty. The \<^verbatim>\<open>finally\<close> clause removes the id from
  \<^verbatim>\<open>self.queues\<close>; the outer handler logs, finds the id removed, and re-raises.
\<close>

definition wait_for_response :: "manager \<Rightarrow> sys \<Rightarrow> string \<Rightarrow> (py_error + json) \<times> sys" where
  "wait_for_response m s request_id =
     (case queues m s request_id of
        None \<Rightarrow>
          (Inl (HTTPException 404 (Detail (JStr (''Request not found: '' @ request_id)))),
           emit (Log LError ''Error waiting for response'')
             (emit (Log LError ''Queue not found for request_id'') s))
      | Some r \<Rightarrow>
          (case items (store s r) of
             [] \<Rightarrow>
               (let s1 = emit (Log LError ''Timeout waiting for response for request_id'') s;
                    s2 = set_queues m ((queues m s1)(request_id := None)) s1
                in (Inl (HTTPException 408 (Detail (JStr (''Request timeout: '' @ request_id)))),
                    emit (Log LError ''Error waiting for response'') s2))
           | response # rest \<Rightarrow>
               (let s1 = s\<lparr>store := (store s)(r := (store s r)\<lparr>items := rest\<rparr>)\<rparr>;
                    s2 = set_queues m ((queues m s1)(request_id := None)) s1
                in case check_response response of
                     Inr v \<Rightarrow> (Inr v, s2)
                   | Inl err \<Rightarrow> (Inl err, emit (Log LError ''Error waiting for response'') s2))))"

section \<open>RequestManager\<close>

text \<open>\<^verbatim>\<open>x[k]\<close> for a string key: \<^verbatim>\<open>KeyError\<close> on a dict without it, \<^verbatim>\<open>TypeError\<close> on any other value.\<close>

fun subscript :: "json \<Rightarrow> string \<Rightarrow> py_error + json" where
  "subscript (JObj kvs) k = (case map_of kvs k of None \<Rightarrow> Inl (KeyError k) | Some v \<Rightarrow> Inr v)"
| "subscript _ k = Inl TypeError"

datatype http_response = JSONResponse json | StreamingResponse string json

definition create_request :: "sys \<Rightarrow> string \<Rightarrow> nat \<times> sys" where
  "create_request s request_id = create_queue RequestManager s request_id"

text \<open>The completion object that \<^verbatim>\<open>process_request\<close> builds from a response dict.\<close>

definition completion :: "string \<Rightarrow> int \<Rightarrow> json \<Rightarrow> (string \<times> json) list \<Rightarrow> json" where
  "completion request_id created model response =
     JObj [(''id'', JStr request_id),
           (''object'', JStr ''chat.completion''),
           (''created'', JInt created),
           (''model'', model),
           (''choices'', JArr [JObj [(''index'', JInt 0),
                                     (''message'', JObj [(''role'', JStr ''assistant''),
                                                         (''content'', get_or response ''response'' (JStr ''''))]),
                                     (''finish_reason'', JNull)]]),
           (''usage'', JObj [(''prompt_tokens'', JInt 0),
                             (''completion_tokens'', get_or response ''tokens_burned'' (JInt 0)),
                             (''total_tokens'', get_or response ''tokens_burned'' (JInt 0))])]"

text \<open>The statements of \<^verbatim>\<open>process_request\<close> after the wait, inside its \<^verbatim>\<open>try\<close>.\<close>

definition respond :: "string \<Rightarrow> int \<Rightarrow> json \<Rightarrow> py_error + json \<Rightarrow> py_error + http_response" where
  "respond request_id created request waited =
     (case waited of
        Inl err \<Rightarrow> Inl err
      | Inr response \<Rightarrow>
          (case check_response response of
             Inl err \<Rightarrow> Inl err
           | Inr (JObj kvs) \<Rightarrow>
               (case subscript request ''args'' of
                  Inl err \<Rightarrow> Inl err
                | Inr args \<Rightarrow>
                    (case subscript args ''model'' of
                       Inl err \<Rightarrow> Inl err
                     | Inr model \<Rightarrow> Inr (JSONResponse (completion request_id created model kvs))))
           | Inr _ \<Rightarrow> Inl AttributeError))"

text \<open>
  \<^verbatim>\<open>process_request\<close>. \<open>inbound\<close> are the frames the receive loop routes while the
  request is suspended in \<^verbatim>\<open>send\<close> and in the wait, before the wait resolves; the
  result of \<^verbatim>\<open>send\<close> is not looked at. The handler of the \<^verbatim>\<open>try\<close> logs and then
  evaluates \<^verbatim>\<open>background_tasks\<close>, a name that is neither a parameter or local of
  \<^verbatim>\<open>process_request\<close> nor a global of its module: \<^verbatim>\<open>NameError\<close> replaces the
  exception being handled, and \<^verbatim>\<open>cleanup_request\<close> is not called.
\<close>

definition process_request ::
  "(string \<Rightarrow> decoded) \<Rightarrow> (json \<Rightarrow> string) \<Rightarrow> int \<Rightarrow> io \<Rightarrow> sys \<Rightarrow> string \<Rightarrow> json \<Rightarrow> string list
     \<Rightarrow> (py_error + http_response) \<times> sys" where
  "process_request loads dumps created e s request_id request inbound =
     (let s0 = emit (Log LInfo ''Processing non-stream request'') s;
          s1 = snd (create_request s0 request_id);
          s2 = snd (send e s1 (dumps request) request_id);
          s3 = receive loads s2 inbound;
          (waited, s4) = wait_for_response RequestManager s3 request_id
      in case respond request_id created request waited of
           Inr response \<Rightarrow> (Inr response, s4)
         | Inl err \<Rightarrow>
             (Inl (NameError ''background_tasks''),
              emit (Log LError ''Error processing request'') s4))"

text \<open>
  \<^verbatim>\<open>handle_request\<close>: the \<^verbatim>\<open>finally\<close> clause evaluates \<^verbatim>\<open>background_tasks\<close>,
  undefined here as well, so \<^verbatim>\<open>NameError\<close> replaces whatever \<^verbatim>\<open>process_request\<close>
  returned or raised.
\<close>

definition handle_request ::
  "(string \<Rightarrow> decoded) \<Rightarrow> (json \<Rightarrow> string) \<Rightarrow> int \<Rightarrow> io \<Rightarrow> sys \<Rightarrow> string \<Rightarrow> json \<Rightarrow> string list
     \<Rightarrow> (py_error + http_response) \<times> sys" where
  "handle_request loads dumps created e s request_id request inbound =
     (case process_request loads dumps created e s request_id request inbound of
        (_, s1) \<Rightarrow> (Inl (NameError ''background_tasks''), s1))"

section \<open>StreamManager\<close>

definition create_stream :: "sys \<Rightarrow> string \<Rightarrow> nat \<times> sys" where
  "create_stream s request_id = create_queue StreamManager s request_id"

text \<open>
  \<^verbatim>\<open>process_stream\<close>; \<^verbatim>\<open>stream_response\<close> wraps the generator, which has not run
  yet, in a \<^verbatim>\<open>StreamingResponse\<close>. A request that is not a dict has no \<^verbatim>\<open>get\<close>.
\<close>

definition process_stream ::
  "(json \<Rightarrow> string) \<Rightarrow> io \<Rightarrow> sys \<Rightarrow> string \<Rightarrow> json \<Rightarrow> (py_error + http_response) \<times> sys" where
  "process_stream dumps e s request_id request =
     (let s0 = emit (Log LInfo ''Processing stream request'') s;
          s1 = snd (create_stream s0 request_id);
          s2 = snd (send e s1 (dumps request) request_id)
      in case request of
           JObj kvs \<Rightarrow>
             (Inr (StreamingResponse request_id (get_or kvs ''model'' (JStr ''unknown''))),
              emit (Log LInfo ''Creating streaming response for request'') s2)
         | _ \<Rightarrow>
             (Inl (HTTPException 500 ExceptionText),
              emit (Log LError ''Error processing stream request'') s2))"

text \<open>The events of the stream: \<^verbatim>\<open>\n\<close> is the character 10.\<close>

definition done_marker :: string where
  "done_marker = ''data: [DONE]'' @ [CHR 0x0A, CHR 0x0A]"

definition timeout_marker :: string where
  "timeout_marker = ''data: [TIMEOUT]'' @ [CHR 0x0A, CHR 0x0A]"

definition chunk_object :: "string \<Rightarrow> json \<Rightarrow> int \<Rightarrow> json \<Rightarrow> json" where
  "chunk_object request_id model created token =
     JObj [(''id'', JStr request_id),
           (''object'', JStr ''chat.completion.chunk''),
           (''created'', JInt created),
           (''model'', model),
           (''choices'', JArr [JObj [(''index'', JInt 0),
                                     (''delta'', JObj [(''content'', token)]),
                                     (''finish_reason'', JNull)]])]"

definition chunk_event :: "(json \<Rightarrow> string) \<Rightarrow> string \<Rightarrow> json \<Rightarrow> int \<Rightarrow> json \<Rightarrow> string" where
  "chunk_event dumps request_id model created token =
     ''data: '' @ dumps (chunk_object request_id model created token) @ [CHR 0x0A, CHR 0x0A]"

datatype stream_end = Done | TimedOut | Raised py_error

text \<open>
  The loop of \<^verbatim>\<open>generate_stream\<close> over the messages its queue delivers, in order:
  what it yields, how it ends, and the messages it leaves in the queue. After the last
  delivered message nothing arrives and \<^verbatim>\<open>asyncio.wait_for\<close> times out. \<open>clock k\<close>
  is \<^verbatim>\<open>int(time.time())\<close> when the chunk of index \<open>k\<close> is built. A message that is
  not a dict (the \<^verbatim>\<open>None\<close> of \<^verbatim>\<open>stop\<close>) raises in the membership test, the
  subscript or \<^verbatim>\<open>get\<close>, and the handler turns that into an HTTP 500.
\<close>

fun stream_loop ::
  "(json \<Rightarrow> string) \<Rightarrow> (nat \<Rightarrow> int) \<Rightarrow> string \<Rightarrow> json \<Rightarrow> nat \<Rightarrow> json list
     \<Rightarrow> string list \<times> stream_end \<times> json list" where
  "stream_loop dumps clock request_id model k [] = ([timeout_marker], TimedOut, [])"
| "stream_loop dumps clock request_id model k (JObj kvs # ds) =
     (if (case map_of kvs ''isStreamEnd'' of None \<Rightarrow> False | Some v \<Rightarrow> truthy v)
      then ([done_marker], Done, ds)
      else (case stream_loop dumps clock request_id model (Suc k) ds of
              (ys, fin, rest) \<Rightarrow>
                (chunk_event dumps request_id model (clock k) (get_or kvs ''chunk'' (JStr '''')) # ys,
                 fin, rest)))"
| "stream_loop dumps clock request_id model k (_ # ds) =
     ([], Raised (HTTPException 500 ExceptionText), ds)"

text \<open>\<^verbatim>\<open>generate_stream\<close>, run until the generator ends.\<close>

definition generate_stream ::
  "(json \<Rightarrow> string) \<Rightarrow> (nat \<Rightarrow> int) \<Rightarrow> sys \<Rightarrow> string \<Rightarrow> json \<Rightarrow> (string list \<times> stream_end) \<times> sys" where
  "generate_stream dumps clock s request_id model =
     (let s0 = emit (Log LInfo ''Generating stream for request'') s
      in case queues StreamManager s0 request_id of
           None \<Rightarrow>
             (([], Raised (HTTPException 404 (Detail (JStr (''Stream not found: '' @ request_id))))),
              emit (Log LError ''Stream generation error'')
                (emit (Log LError ''Queue not found for request_id'') s0))
         | Some r \<Rightarrow>
             (case stream_loop dumps clock request_id model 0 (items (store s0 r)) of
                (ys, fin, rest) \<Rightarrow>
                  (let s1 = s0\<lparr>store := (store s0)(r := (store s0 r)\<lparr>items := rest\<rparr>)\<rparr>
                   in ((ys, fin),
                       (case fin of
                          Done \<Rightarrow> s1
                        | TimedOut \<Rightarrow> emit (Log LWarn ''Stream timeout for request'') s1
                        | Raised _ \<Rightarrow>
                            emit (Log LError ''Stream generation error'')
                              (emit (Log LError ''Error in stream generation'') s1))))))"

section \<open>AuthenticationManager\<close>

definition auth_request :: "string \<Rightarrow> string \<Rightarrow> json" where
  "auth_request wallet_address uuid =
     JObj [(''method'', JStr ''walletAuth/authenticateWallet''),
           (''args'', JObj [(''walletAddress'', JStr wallet_address),
                            (''referred_by_id'', JStr ''''),
                            (''telegramId'', JNull)]),
           (''requestId'', JStr uuid)]"

text \<open>
  \<^verbatim>\<open>authenticate_wallet\<close> up to the wait: it sends, and registers the listener after
  that. \<open>uuid\<close> is \<^verbatim>\<open>str(uuid.uuid4())\<close>; \<open>during_send\<close> are the frames the
  receive loop routes while the call is suspended in \<^verbatim>\<open>send\<close>, \<open>during_wait\<close>
  those it routes once the listener is registered, before the wait resolves.
\<close>

definition auth_begin ::
  "(string \<Rightarrow> decoded) \<Rightarrow> (json \<Rightarrow> string) \<Rightarrow> io \<Rightarrow> sys \<Rightarrow> string \<Rightarrow> string
     \<Rightarrow> string list \<Rightarrow> string list \<Rightarrow> nat \<times> sys" where
  "auth_begin loads dumps e s wallet_address uuid during_send during_wait =
     (let s0 = emit (Log LInfo ''Authenticating wallet'') s;
          s1 = snd (send e s0 (dumps (auth_request wallet_address uuid)) uuid);
          s2 = receive loads s1 during_send;
          (r, s3) = register_listener s2 uuid
      in (r, receive loads s3 during_wait))"

text \<open>
  The wait of \<^verbatim>\<open>authenticate_wallet\<close> on the queue \<open>r\<close> and what follows it; the
  \<^verbatim>\<open>finally\<close> clause unregisters on every path. An empty queue is the timeout of
  \<^verbatim>\<open>asyncio.wait_for\<close>. A truthy response that is not a dict raises
  \<^verbatim>\<open>AttributeError\<close>, which the outer handler logs.
\<close>

definition auth_finish :: "sys \<Rightarrow> string \<Rightarrow> string \<Rightarrow> nat \<Rightarrow> bool \<times> sys" where
  "auth_finish s wallet_address uuid r =
     (case items (store s r) of
        [] \<Rightarrow>
          (False, unregister_listener
                    (emit (Log LError ''Authentication timeout for wallet'') s) uuid)
      | response # rest \<Rightarrow>
          (let s1 = s\<lparr>store := (store s)(r := (store s r)\<lparr>items := rest\<rparr>)\<rparr>
           in if \<not> truthy response
              then (False, unregister_listener
                             (emit (Log LError ''Wallet authentication failed'') s1) uuid)
              else (case response of
                      JObj kvs \<Rightarrow>
                        (if is_200 (get_or kvs ''code'' JNull)
                         then (True, unregister_listener
                                       (emit (Log LSuccess ''Wallet authenticated successfully'')
                                          (s1\<lparr>authenticated_addresses :=
                                                 authenticated_addresses s1 @ [wallet_address]\<rparr>))
                                       uuid)
                         else (False, unregister_listener
                                        (emit (Log LError ''Wallet authentication failed'') s1) uuid))
                    | _ \<Rightarrow>
                        (False, emit (Log LError ''Error during wallet authentication'')
                                  (unregister_listener s1 uuid)))))"

definition authenticate_wallet ::
  "(string \<Rightarrow> decoded) \<Rightarrow> (json \<Rightarrow> string) \<Rightarrow> io \<Rightarrow> sys \<Rightarrow> string \<Rightarrow> string
     \<Rightarrow> string list \<Rightarrow> string list \<Rightarrow> bool \<times> sys" where
  "authenticate_wallet loads dumps e s wallet_address uuid during_send during_wait =
     (case auth_begin loads dumps e s wallet_address uuid during_send during_wait of
        (r, s1) \<Rightarrow> auth_finish s1 wallet_address uuid r)"

section \<open>Reading the trace\<close>

text \<open>Every frame sent for \<open>rid\<close> comes after the insertion of \<open>rid\<close> into \<^verbatim>\<open>listeners\<close>.\<close>

fun registered_before_sent :: "string \<Rightarrow> event list \<Rightarrow> bool" where
  "registered_before_sent rid [] = True"
| "registered_before_sent rid (Registered r # tr) = (r = rid \<or> registered_before_sent rid tr)"
| "registered_before_sent rid (Sent r m # tr) = (r \<noteq> rid \<and> registered_before_sent rid tr)"
| "registered_before_sent rid (_ # tr) = registered_before_sent rid tr"

text \<open>The number of calls of \<^verbatim>\<open>websockets.connect\<close>.\<close>

fun is_connect_attempt :: "event \<Rightarrow> bool" where
  "is_connect_attempt (ConnectAttempt _) = True"
| "is_connect_attempt _ = False"

definition connect_attempts :: "sys \<Rightarrow> nat" where
  "connect_attempts s = length (filter is_connect_attempt (trace s))"

text \<open>The state once \<^verbatim>\<open>lifespan\<close> has connected, with handshake \<open>h\<close>, and started the listener.\<close>

definition started :: "handshake \<Rightarrow> sys" where
  "started h = start_listening (snd (connect h init))"

section \<open>Facts about the state\<close>

lemma emit_fields [simp]:
  "listeners (emit e s) = listeners s"
  "stream_queues (emit e s) = stream_queues s"
  "store (emit e s) = store s"
  "next_ref (emit e s) = next_ref s"
  "connection (emit e s) = connection s"
  "running (emit e s) = running s"
  "current_retry (emit e s) = current_retry s"
  "max_retries (emit e s) = max_retries s"
  "reconnect_delay (emit e s) = reconnect_delay s"
  "request_queues (emit e s) = request_queues s"
  "stream_manager_queues (emit e s) = stream_manager_queues s"
  "authenticated_addresses (emit e s) = authenticated_addresses s"
  "trace (emit e s) = trace s @ [e]"
  by (simp_all add: emit_def)

lemma connect_fields [simp]:
  "listeners (snd (connect h s)) = listeners s"
  "stream_queues (snd (connect h s)) = stream_queues s"
  "store (snd (connect h s)) = store s"
  "next_ref (snd (connect h s)) = next_ref s"
  "request_queues (snd (connect h s)) = request_queues s"
  "stream_manager_queues (snd (connect h s)) = stream_manager_queues s"
  "authenticated_addresses (snd (connect h s)) = authenticated_addresses s"
  by (cases h; simp add: connect_def Let_def)+

lemma close_fields [simp]:
  "listeners (close ok s) = listeners s"
  "stream_queues (close ok s) = stream_queues s"
  "store (close ok s) = store s"
  "next_ref (close ok s) = next_ref s"
  "request_queues (close ok s) = request_queues s"
  "stream_manager_queues (close ok s) = stream_manager_queues s"
  "authenticated_addresses (close ok s) = authenticated_addresses s"
  by (simp_all add: close_def Let_def)

lemma write_frame_fields [simp]:
  "listeners (snd (write_frame e s m rid)) = listeners s"
  "stream_queues (snd (write_frame e s m rid)) = stream_queues s"
  "store (snd (write_frame e s m rid)) = store s"
  "next_ref (snd (write_frame e s m rid)) = next_ref s"
  "request_queues (snd (write_frame e s m rid)) = request_queues s"
  "stream_manager_queues (snd (write_frame e s m rid)) = stream_manager_queues s"
  "authenticated_addresses (snd (write_frame e s m rid)) = authenticated_addresses s"
  by (simp_all add: write_frame_def)

lemma send_fields [simp]:
  "listeners (snd (send e s m rid)) = listeners s"
  "stream_queues (snd (send e s m rid)) = stream_queues s"
  "store (snd (send e s m rid)) = store s"
  "next_ref (snd (send e s m rid)) = next_ref s"
  "request_queues (snd (send e s m rid)) = request_queues s"
  "stream_manager_queues (snd (send e s m rid)) = stream_manager_queues s"
  "authenticated_addresses (snd (send e s m rid)) = authenticated_addresses s"
proof -
  obtain b s1 where c: "connect (handshake e) s = (b, s1)" by (cases "connect (handshake e) s")
  have s1: "listeners s1 = listeners s" "stream_queues s1 = stream_queues s"
    "store s1 = store s" "next_ref s1 = next_ref s" "request_queues s1 = request_queues s"
    "stream_manager_queues s1 = stream_manager_queues s"
    "authenticated_addresses s1 = authenticated_addresses s"
    using connect_fields[of "handshake e" s] c by simp_all
  show "listeners (snd (send e s m rid)) = listeners s"
    "stream_queues (snd (send e s m rid)) = stream_queues s"
    "store (snd (send e s m rid)) = store s"
    "next_ref (snd (send e s m rid)) = next_ref s"
    "request_queues (snd (send e s m rid)) = request_queues s"
    "stream_manager_queues (snd (send e s m rid)) = stream_manager_queues s"
    "authenticated_addresses (snd (send e s m rid)) = authenticated_addresses s"
    using c s1 by (cases b; simp add: send_def)+
qed

section \<open>The registry\<close>



section \<open>The receive loop\<close>

lemma connect_failure:
  assumes "h \<noteq> Established"
  shows "fst (connect h s) = False" "connection (snd (connect h s)) = connection s"
    "running (snd (connect h s)) = running s" "current_retry (snd (connect h s)) = current_retry s"
    "max_retries (snd (connect h s)) = max_retries s"
    "connect_attempts (snd (connect h s)) = Suc (connect_attempts s)"
  using assms by (cases h; simp add: connect_def Let_def connect_attempts_def)+

lemma listen_dead_upstream:
  assumes "\<not> connection s" "running s" "\<forall>e \<in> set es. handshake e \<noteq> Established"
  shows "fst (listen loads s es) = Listening
       \<and> current_retry (snd (listen loads s es)) = current_retry s
       \<and> connect_attempts (snd (listen loads s es)) = connect_attempts s + length es"
  using assms
proof (induction es arbitrary: s)
  case Nil
  then show ?case by simp
next
  case (Cons e es)
  have h: "handshake e \<noteq> Established" using Cons.prems by simp
  obtain s1 where c: "connect (handshake e) s = (False, s1)"
    using connect_failure(1)[OF h, of s] by (cases "connect (handshake e) s") auto
  have s1: "\<not> connection s1" "running s1" "current_retry s1 = current_retry s"
    "connect_attempts s1 = Suc (connect_attempts s)"
    using connect_failure(2-6)[OF h, of s] c Cons.prems by simp_all
  let ?s2 = "emit (Slept (reconnect_delay s1)) (emit (Log LError ''Failed to reconnect - retrying'') s1)"
  have it: "listen_iteration loads e s = (False, ?s2)"
    using Cons.prems c by (simp add: listen_iteration_def)
  have s2: "\<not> connection ?s2" "running ?s2" "current_retry ?s2 = current_retry s"
    "connect_attempts ?s2 = Suc (connect_attempts s)"
    using s1 by (simp_all add: connect_attempts_def)
  have "\<forall>e \<in> set es. handshake e \<noteq> Established" using Cons.prems by simp
  from Cons.IH[OF s2(1) s2(2) this] s2 it Cons.prems(2)
  show ?case by simp
qed

lemma started_fields:
  "connection (started h) = (h = Established)" "running (started h)"
  "current_retry (started h) = 0" "connect_attempts (started h) = 1"
  "max_retries (started h) = 5"
  by (cases h; simp add: started_def start_listening_def connect_def Let_def init_def
        connect_attempts_def)+

text \<open>
  C2. What the receive loop does where the claim says it reconnects within a budget.
  Started on an established connection, the loop ends at the first
  \<^verbatim>\<open>ConnectionClosed\<close>, whatever the socket would do next: \<^verbatim>\<open>close\<close> clears
  \<^verbatim>\<open>running\<close>, the loop condition fails, and no second connection is attempted, with
  the retry counter at 0 of 5. Started without a connection, the loop is still running
  after any number \<open>n\<close> of failed connection attempts, and the retry counter is still 0:
  a failed \<^verbatim>\<open>connect\<close> is never counted.
\<close>

theorem listen_stops_on_close_and_never_counts_connect_failures:
  "fst (listen loads (started Established) (e\<lparr>recv := ConnectionClosed\<rparr> # es)) = Stopped
   \<and> connect_attempts (snd (listen loads (started Established) (e\<lparr>recv := ConnectionClosed\<rparr> # es))) = 1
   \<and> current_retry (snd (listen loads (started Established) (e\<lparr>recv := ConnectionClosed\<rparr> # es))) = 0
   \<and> max_retries (snd (listen loads (started Established) (e\<lparr>recv := ConnectionClosed\<rparr> # es))) = 5
   \<and> fst (listen loads (started HandshakeError) (replicate n (e\<lparr>handshake := HandshakeError\<rparr>)))
       = Listening
   \<and> connect_attempts (snd (listen loads (started HandshakeError)
                                 (replicate n (e\<lparr>handshake := HandshakeError\<rparr>)))) = n + 1
   \<and> current_retry (snd (listen loads (started HandshakeError)
                              (replicate n (e\<lparr>handshake := HandshakeError\<rparr>)))) = 0"
proof -
  let ?s = "started Established"
  let ?c = "close (close_ok e) (emit (Log LWarn ''WebSocket connection closed'') ?s)"
  have it: "listen_iteration loads (e\<lparr>recv := ConnectionClosed\<rparr>) ?s = (False, ?c)"
    by (simp add: listen_iteration_def started_fields)
  have c: "\<not> running ?c" "current_retry ?c = 0" "max_retries ?c = 5" "connect_attempts ?c = 1"
    using started_fields[of Established]
    by (simp_all add: close_def Let_def connect_attempts_def)
  have stop: "listen loads ?s (e\<lparr>recv := ConnectionClosed\<rparr> # es) = (Stopped, listener_stopped ?c)"
    using it c(1) by (cases es) (simp_all add: started_fields)
  have a: "fst (listen loads ?s (e\<lparr>recv := ConnectionClosed\<rparr> # es)) = Stopped"
    "connect_attempts (snd (listen loads ?s (e\<lparr>recv := ConnectionClosed\<rparr> # es))) = 1"
    "current_retry (snd (listen loads ?s (e\<lparr>recv := ConnectionClosed\<rparr> # es))) = 0"
    "max_retries (snd (listen loads ?s (e\<lparr>recv := ConnectionClosed\<rparr> # es))) = 5"
    unfolding stop using c by (simp_all add: listener_stopped_def connect_attempts_def)
  have "\<forall>x \<in> set (replicate n (e\<lparr>handshake := HandshakeError\<rparr>)). handshake x \<noteq> Established"
    by simp
  from listen_dead_upstream[OF _ _ this, of "started HandshakeError" loads]
  have b: "fst (listen loads (started HandshakeError) (replicate n (e\<lparr>handshake := HandshakeError\<rparr>)))
       = Listening"
    "connect_attempts (snd (listen loads (started HandshakeError)
                                 (replicate n (e\<lparr>handshake := HandshakeError\<rparr>)))) = n + 1"
    "current_retry (snd (listen loads (started HandshakeError)
                              (replicate n (e\<lparr>handshake := HandshakeError\<rparr>)))) = 0"
    by (simp_all add: started_fields)
  from a b show ?thesis by simp
qed

section \<open>The router\<close>

lemma full_unbounded: "maxsize q \<le> 0 \<Longrightarrow> \<not> full q"
  by (simp add: full_def)

lemma unregister_fields [simp]:
  "store (unregister_listener s rid) = store s"
  "next_ref (unregister_listener s rid) = next_ref s"
  "stream_queues (unregister_listener s rid) = stream_queues s"
  "request_queues (unregister_listener s rid) = request_queues s"
  "stream_manager_queues (unregister_listener s rid) = stream_manager_queues s"
  "authenticated_addresses (unregister_listener s rid) = authenticated_addresses s"
  "listeners (unregister_listener s rid) = (listeners s)(rid := None)"
  by (auto simp: unregister_listener_def)

text \<open>
  C8. A frame that does not decode, a decoded dict without \<^verbatim>\<open>requestId\<close> or with a
  falsy one, and a frame whose \<^verbatim>\<open>requestId\<close> is in neither dictionary each leave
  the router with one log line (an error or a warning) added to the state and nothing
  else changed: the router returns, and the registry, the queues and the next reference
  are as before, so no entry is created for the unknown id.
\<close>

theorem router_drops_unroutable:
  "(loads m = JSONDecodeError \<longrightarrow>
      route_message loads s m = emit (Log LError ''JSON decode error'') s)
   \<and> (loads m = DecodeFailure \<longrightarrow>
      route_message loads s m = emit (Log LError ''Error processing message'') s)
   \<and> (loads m = Decoded (JObj kvs) \<and> map_of kvs ''requestId'' = None \<longrightarrow>
      route_message loads s m = emit (Log LWarn ''Received message without request ID'') s)
   \<and> (loads m = Decoded (JObj kvs) \<and> map_of kvs ''requestId'' = Some v \<and> \<not> truthy v \<longrightarrow>
      route_message loads s m = emit (Log LWarn ''Received message without request ID'') s)
   \<and> (loads m = Decoded (JObj kvs) \<and> map_of kvs ''requestId'' = Some (JStr rid) \<and> rid \<noteq> []
        \<and> listeners s rid = None \<and> stream_queues s rid = None \<longrightarrow>
      route_message loads s m = emit (Log LError ''No queue found for request_id'') s)
   \<and> listeners (emit e s) = listeners s \<and> stream_queues (emit e s) = stream_queues s
   \<and> store (emit e s) = store s \<and> next_ref (emit e s) = next_ref s"
  by (simp add: route_message_def deliver_def Let_def)

theorem router_drops_unroutable_witness:
  "route_message (\<lambda>m. if m = ''{'' then JSONDecodeError else DecodeFailure) init ''{''
     = emit (Log LError ''JSON decode error'') init
   \<and> route_message (\<lambda>m. Decoded (JObj [(''code'', JInt 200)])) init ''A''
     = emit (Log LWarn ''Received message without request ID'') init
   \<and> route_message (\<lambda>m. Decoded (JObj [(''requestId'', JStr ''''), (''code'', JInt 200)])) init ''B''
     = emit (Log LWarn ''Received message without request ID'') init
   \<and> route_message (\<lambda>m. Decoded (JObj [(''requestId'', JStr ''gone''), (''code'', JInt 200)])) init ''C''
     = emit (Log LError ''No queue found for request_id'') init
   \<and> listeners (emit (Log LError ''No queue found for request_id'') init) = Map.empty"
  using router_drops_unroutable [of "\<lambda>m. if m = ''{'' then JSONDecodeError else DecodeFailure"
          "''{''" init "[]" "JNull" "''x''" "Log LError ''No queue found for request_id''"]
        router_drops_unroutable [of "\<lambda>m. Decoded (JObj [(''code'', JInt 200)])"
          "''A''" init "[(''code'', JInt 200)]" "JNull" "''x''" "Log LError ''x''"]
        router_drops_unroutable [of "\<lambda>m. Decoded (JObj [(''requestId'', JStr ''''), (''code'', JInt 200)])"
          "''B''" init "[(''requestId'', JStr ''''), (''code'', JInt 200)]" "JStr ''''" "''x''" "Log LError ''x''"]
        router_drops_unroutable [of "\<lambda>m. Decoded (JObj [(''requestId'', JStr ''gone''), (''code'', JInt 200)])"
          "''C''" init "[(''requestId'', JStr ''gone''), (''code'', JInt 200)]" "JNull" "''gone''" "Log LError ''x''"]
  by (simp add: init_def)

text \<open>
  C4, against the claim as stated: the channel that registering \<open>r1\<close> creates has
  \<^verbatim>\<open>maxsize\<close> 0, which for \<^verbatim>\<open>asyncio.Queue\<close> means no bound, and after three
  frames routed to it it holds all three and is not full.
\<close>

theorem registered_channel_not_bounded:
  "maxsize (store (snd (register_listener init ''r1'')) (fst (register_listener init ''r1''))) = 0
   \<and> items (store (receive (\<lambda>m. Decoded (JObj [(''requestId'', JStr ''r1''), (''chunk'', JStr m)]))
                      (snd (register_listener init ''r1'')) [''a'', ''b'', ''c''])
               (fst (register_listener init ''r1'')))
       = [JObj [(''requestId'', JStr ''r1''), (''chunk'', JStr ''a'')],
          JObj [(''requestId'', JStr ''r1''), (''chunk'', JStr ''b'')],
          JObj [(''requestId'', JStr ''r1''), (''chunk'', JStr ''c'')]]
   \<and> \<not> full (store (receive (\<lambda>m. Decoded (JObj [(''requestId'', JStr ''r1''), (''chunk'', JStr m)]))
                      (snd (register_listener init ''r1'')) [''a'', ''b'', ''c''])
               (fst (register_listener init ''r1'')))"
  by (simp add: init_def register_listener_def Let_def receive_def route_message_def deliver_def
        put_nowait_def full_def new_queue_def get_or_def emit_def)

text \<open>
  C4 as amended. Registering an id that is absent creates an empty queue of
  \<^verbatim>\<open>maxsize\<close> 0, and a queue of \<^verbatim>\<open>maxsize\<close> 0 is not full whatever it holds. For a
  frame addressed to a registered id the router does not block: when the queue is full
  it drops the frame and logs an error, the state being otherwise unchanged; when it is
  not full the message is appended behind the messages already queued.
\<close>

theorem registered_channel_unbounded_fifo:
  "(listeners s rid = None \<longrightarrow>
      store (snd (register_listener s rid)) (fst (register_listener s rid))
        = \<lparr>maxsize = 0, items = []\<rparr>)
   \<and> \<not> full \<lparr>maxsize = 0, items = xs\<rparr>
   \<and> (loads m = Decoded (JObj kvs) \<and> map_of kvs ''requestId'' = Some (JStr rid) \<and> rid \<noteq> []
        \<and> listeners t rid = Some r \<and> full (store t r) \<longrightarrow>
      route_message loads t m = emit (Log LError ''Queue full for request_id'') t)
   \<and> (loads m = Decoded (JObj kvs) \<and> map_of kvs ''requestId'' = Some (JStr rid) \<and> rid \<noteq> []
        \<and> listeners t rid = Some r \<and> \<not> full (store t r) \<longrightarrow>
      items (store (route_message loads t m) r) = items (store t r) @ [JObj kvs])"
  by (simp add: register_listener_def Let_def new_queue_def full_def route_message_def
        deliver_def put_nowait_def)

theorem registered_channel_unbounded_fifo_witness:
  "store (snd (register_listener init ''r1'')) (fst (register_listener init ''r1''))
     = \<lparr>maxsize = 0, items = []\<rparr>
   \<and> route_message (\<lambda>m. Decoded (JObj [(''requestId'', JStr ''r1'')]))
        (init\<lparr>listeners := [''r1'' \<mapsto> 0], store := (\<lambda>_. \<lparr>maxsize = 1, items = [JNull]\<rparr>)\<rparr>) ''m''
     = emit (Log LError ''Queue full for request_id'')
        (init\<lparr>listeners := [''r1'' \<mapsto> 0], store := (\<lambda>_. \<lparr>maxsize = 1, items = [JNull]\<rparr>)\<rparr>)
   \<and> items (store (route_message (\<lambda>m. Decoded (JObj [(''requestId'', JStr ''r1'')]))
        (init\<lparr>listeners := [''r1'' \<mapsto> 0], store := (\<lambda>_. \<lparr>maxsize = 2, items = [JNull]\<rparr>)\<rparr>) ''m'') 0)
     = [JNull, JObj [(''requestId'', JStr ''r1'')]]"
  using registered_channel_unbounded_fifo [of init "''r1''" "[]"
          "\<lambda>m. Decoded (JObj [(''requestId'', JStr ''r1'')])" "''m''" "[(''requestId'', JStr ''r1'')]"
          "init\<lparr>listeners := [''r1'' \<mapsto> 0], store := (\<lambda>_. \<lparr>maxsize = 1, items = [JNull]\<rparr>)\<rparr>" 0]
        registered_channel_unbounded_fifo [of init "''r1''" "[]"
          "\<lambda>m. Decoded (JObj [(''requestId'', JStr ''r1'')])" "''m''" "[(''requestId'', JStr ''r1'')]"
          "init\<lparr>listeners := [''r1'' \<mapsto> 0], store := (\<lambda>_. \<lparr>maxsize = 2, items = [JNull]\<rparr>)\<rparr>" 0]
  by (simp add: init_def full_def)

section \<open>The trace only grows\<close>

lemma prefix_emit: "prefix (trace s) (trace (emit e s))"
  by simp

lemma prefix_unregister: "prefix (trace s) (trace (unregister_listener s rid))"
  by (simp add: unregister_listener_def)

lemma prefix_register: "prefix (trace s) (trace (snd (register_listener s rid)))"
  by (cases "listeners s rid") (simp_all add: register_listener_def Let_def emit_def)

lemma prefix_route: "prefix (trace s) (trace (route_message loads s m))"
  by (auto simp: route_message_def deliver_def Let_def unregister_listener_def
           split: decoded.splits json.splits option.splits sum.splits)

lemma prefix_receive: "prefix (trace s) (trace (receive loads s ms))"
proof (induction ms arbitrary: s)
  case Nil
  then show ?case by (simp add: receive_def)
next
  case (Cons m ms)
  have a: "prefix (trace s) (trace (route_message loads s m))"
    by (rule prefix_route)
  have b: "prefix (trace (route_message loads s m))
             (trace (receive loads (route_message loads s m) ms))"
    by (rule Cons.IH)
  have c: "receive loads s (m # ms) = receive loads (route_message loads s m) ms"
    by (simp add: receive_def)
  show ?case unfolding c using a b by (rule prefix_order.trans)
qed

lemma prefix_wait: "prefix (trace s) (trace (snd (wait_for_response m s rid)))"
  by (cases m)
     (auto simp: wait_for_response_def Let_def split: option.splits list.splits sum.splits)

lemma prefix_auth_finish: "prefix (trace s) (trace (snd (auth_finish s w u r)))"
  by (auto simp: auth_finish_def Let_def unregister_listener_def
           split: list.splits json.splits)

lemma rbs_registered:
  "\<forall>x \<in> set pre. \<forall>m. x \<noteq> Sent rid m \<Longrightarrow> registered_before_sent rid (pre @ Registered rid # rest)"
proof (induction pre)
  case Nil
  then show ?case by simp
next
  case (Cons x pre)
  then show ?case by (cases x) auto
qed

lemma rbs_sent:
  "Registered rid \<notin> set pre \<Longrightarrow> \<not> registered_before_sent rid (pre @ Sent rid m # rest)"
proof (induction pre)
  case Nil
  then show ?case by simp
next
  case (Cons x pre)
  then show ?case by (cases x) auto
qed

lemma started_trace:
  "trace (started Established) =
     [Log LInfo ''Attempting to connect to WebSocket server'', ConnectAttempt True,
      Log LSuccess ''WebSocket connection established successfully'',
      Log LInfo ''Started message listener'']"
  by (simp add: started_def start_listening_def connect_def Let_def init_def emit_def)

lemma started_maps:
  "listeners (started h) = Map.empty" "request_queues (started h) = Map.empty"
  "stream_manager_queues (started h) = Map.empty" "next_ref (started h) = 0"
  "store (started h) = (\<lambda>_. new_queue)" "stream_queues (started h) = Map.empty"
  "authenticated_addresses (started h) = []"
  by (simp_all add: started_def start_listening_def init_def)

section \<open>Registration and sending\<close>

lemma request_sent_trace:
  "trace (snd (send (e\<lparr>write_ok := True\<rparr>)
                (snd (create_queue m (emit l (started Established)) rid)) msg rid))
   = trace (started Established) @
     [l, Log LInfo ''Creating queue for request_id''] @
     Registered rid # [Log LInfo ''Registered new listener for request_id'',
                       Sent rid msg, Log LInfo ''Sent message'']"
  by (cases m)
     (simp_all add: create_queue_def register_listener_def Let_def send_def write_frame_def
        started_maps started_fields)

lemma auth_sent_trace:
  "trace (snd (send (e\<lparr>write_ok := True\<rparr>) (emit l (started Established)) msg rid))
   = (trace (started Established) @ [l]) @ Sent rid msg # [Log LInfo ''Sent message'']"
  by (simp add: send_def write_frame_def started_fields)

text \<open>
  C1. The order of registration and sending on the three paths, each started on the
  connected system with a socket that accepts the write. \<^verbatim>\<open>process_request\<close> and
  \<^verbatim>\<open>process_stream\<close> insert the id into \<^verbatim>\<open>listeners\<close> before the frame is sent.
  \<^verbatim>\<open>authenticate_wallet\<close> does not: its frame is sent first and its listener is
  registered after, whatever the wallet address, the id and the frames received meanwhile.
\<close>

theorem registration_precedes_send_except_for_authentication:
  "registered_before_sent rid
     (trace (snd (process_request loads dumps created (e\<lparr>write_ok := True\<rparr>)
                    (started Established) rid request inbound)))
   \<and> registered_before_sent rid
     (trace (snd (process_stream dumps (e\<lparr>write_ok := True\<rparr>) (started Established) rid request)))
   \<and> \<not> registered_before_sent uuid
     (trace (snd (authenticate_wallet loads dumps (e\<lparr>write_ok := True\<rparr>) (started Established)
                    wallet_address uuid during_send during_wait)))"
proof (intro conjI)
  let ?e = "e\<lparr>write_ok := True\<rparr>"
  let ?pre = "trace (started Established) @
     [Log LInfo ''Processing non-stream request'', Log LInfo ''Creating queue for request_id'']"
  let ?s2 = "snd (send ?e (snd (create_queue RequestManager
                (emit (Log LInfo ''Processing non-stream request'') (started Established)) rid))
                (dumps request) rid)"
  let ?s3 = "receive loads ?s2 inbound"
  let ?fin = "snd (process_request loads dumps created ?e (started Established) rid request inbound)"
  let ?s4 = "snd (wait_for_response RequestManager ?s3 rid)"
  have fin: "?fin = ?s4 \<or> ?fin = emit (Log LError ''Error processing request'') ?s4"
    by (simp add: process_request_def Let_def create_request_def split: prod.splits sum.splits)
  have "prefix (trace ?s2) (trace ?s3)" by (rule prefix_receive)
  also have "prefix (trace ?s3) (trace ?s4)" by (rule prefix_wait)
  also have "prefix (trace ?s4) (trace ?fin)" using fin by (elim disjE) simp_all
  finally obtain evs where "trace ?fin = trace ?s2 @ evs"
    by (auto simp: prefix_def)
  then have "trace ?fin = ?pre @ Registered rid #
      ([Log LInfo ''Registered new listener for request_id'', Sent rid (dumps request),
        Log LInfo ''Sent message''] @ evs)"
    by (simp add: request_sent_trace)
  moreover have "\<forall>x \<in> set ?pre. \<forall>m. x \<noteq> Sent rid m"
    by (auto simp: started_trace)
  ultimately show "registered_before_sent rid (trace ?fin)"
    using rbs_registered[of ?pre rid] by simp
next
  let ?e = "e\<lparr>write_ok := True\<rparr>"
  let ?pre = "trace (started Established) @
     [Log LInfo ''Processing stream request'', Log LInfo ''Creating queue for request_id'']"
  let ?s2 = "snd (send ?e (snd (create_queue StreamManager
                (emit (Log LInfo ''Processing stream request'') (started Established)) rid))
                (dumps request) rid)"
  let ?fin = "snd (process_stream dumps ?e (started Established) rid request)"
  have "prefix (trace ?s2) (trace ?fin)"
    by (cases request) (simp_all add: process_stream_def Let_def create_stream_def)
  then obtain evs where "trace ?fin = trace ?s2 @ evs"
    by (auto simp: prefix_def)
  then have "trace ?fin = ?pre @ Registered rid #
      ([Log LInfo ''Registered new listener for request_id'', Sent rid (dumps request),
        Log LInfo ''Sent message''] @ evs)"
    by (simp add: request_sent_trace)
  moreover have "\<forall>x \<in> set ?pre. \<forall>m. x \<noteq> Sent rid m"
    by (auto simp: started_trace)
  ultimately show "registered_before_sent rid (trace ?fin)"
    using rbs_registered[of ?pre rid] by simp
next
  let ?e = "e\<lparr>write_ok := True\<rparr>"
  let ?msg = "dumps (auth_request wallet_address uuid)"
  let ?pre = "trace (started Established) @ [Log LInfo ''Authenticating wallet'']"
  let ?s1 = "snd (send ?e (emit (Log LInfo ''Authenticating wallet'') (started Established)) ?msg uuid)"
  let ?s2 = "receive loads ?s1 during_send"
  let ?s3 = "snd (register_listener ?s2 uuid)"
  let ?s4 = "receive loads ?s3 during_wait"
  let ?fin = "snd (authenticate_wallet loads dumps ?e (started Established)
                    wallet_address uuid during_send during_wait)"
  have fin: "?fin = snd (auth_finish ?s4 wallet_address uuid (fst (register_listener ?s2 uuid)))"
    by (simp add: authenticate_wallet_def auth_begin_def Let_def split: prod.splits)
  have "prefix (trace ?s1) (trace ?s2)" by (rule prefix_receive)
  also have "prefix (trace ?s2) (trace ?s3)" by (rule prefix_register)
  also have "prefix (trace ?s3) (trace ?s4)" by (rule prefix_receive)
  also have "prefix (trace ?s4) (trace ?fin)" unfolding fin by (rule prefix_auth_finish)
  finally obtain evs where "trace ?fin = trace ?s1 @ evs"
    by (auto simp: prefix_def)
  then have "trace ?fin = ?pre @ Sent uuid ?msg # ([Log LInfo ''Sent message''] @ evs)"
    by (simp add: auth_sent_trace)
  moreover have "Registered uuid \<notin> set ?pre"
    by (simp add: started_trace)
  ultimately show "\<not> registered_before_sent uuid (trace ?fin)"
    using rbs_sent[of uuid ?pre] by simp
qed

section \<open>The unary path\<close>

lemma send_no_unregistered:
  "Unregistered r \<notin> set (trace s) \<Longrightarrow> Unregistered r \<notin> set (trace (snd (send e s m rid)))"
  by (cases "handshake e") (auto simp: send_def write_frame_def connect_def close_def Let_def)

lemma created_request:
  "listeners (snd (create_request (emit l (started Established)) rid)) rid = Some 0"
  "request_queues (snd (create_request (emit l (started Established)) rid)) rid = Some 0"
  "store (snd (create_request (emit l (started Established)) rid)) 0 = new_queue"
  "set (trace (snd (create_request (emit l (started Established)) rid)))
     = set (trace (started Established)) \<union>
       {l, Log LInfo ''Creating queue for request_id'', Registered rid,
        Log LInfo ''Registered new listener for request_id''}"
  by (auto simp: create_request_def create_queue_def register_listener_def Let_def started_maps)

text \<open>
  C3. A unary request that receives nothing within its timeout, on the connected system.
  The wait itself resolves to the HTTP 408 error. \<^verbatim>\<open>process_request\<close> does not surface
  it: its handler raises \<^verbatim>\<open>NameError\<close> on the undefined \<^verbatim>\<open>background_tasks\<close>, and
  so does the \<^verbatim>\<open>finally\<close> clause of \<^verbatim>\<open>handle_request\<close>. The cleanup that unregisters
  is never scheduled: no \<^verbatim>\<open>Unregistered\<close> event occurs and the id is still in
  \<^verbatim>\<open>listeners\<close> afterwards.
\<close>

theorem unary_timeout_leaves_listener_registered:
  "fst (wait_for_response RequestManager
          (snd (send e (snd (create_request
                  (emit (Log LInfo ''Processing non-stream request'') (started Established)) rid))
                  (dumps request) rid)) rid)
     = Inl (HTTPException 408 (Detail (JStr (''Request timeout: '' @ rid))))
   \<and> fst (process_request loads dumps created e (started Established) rid request [])
     = Inl (NameError ''background_tasks'')
   \<and> fst (handle_request loads dumps created e (started Established) rid request [])
     = Inl (NameError ''background_tasks'')
   \<and> listeners (snd (handle_request loads dumps created e (started Established) rid request [])) rid
     = Some 0
   \<and> Unregistered rid
       \<notin> set (trace (snd (handle_request loads dumps created e (started Established) rid request [])))"
proof -
  let ?l = "Log LInfo ''Processing non-stream request''"
  let ?s1 = "snd (create_request (emit ?l (started Established)) rid)"
  let ?s2 = "snd (send e ?s1 (dumps request) rid)"
  let ?t = "emit (Log LError ''Timeout waiting for response for request_id'') ?s2"
  let ?s4 = "emit (Log LError ''Error waiting for response'')
               (set_queues RequestManager ((queues RequestManager ?t)(rid := None)) ?t)"
  let ?err = "HTTPException 408 (Detail (JStr (''Request timeout: '' @ rid)))"
  have q: "request_queues ?s2 rid = Some 0" "items (store ?s2 0) = []" "listeners ?s2 rid = Some 0"
    by (simp_all add: created_request new_queue_def)
  have w: "wait_for_response RequestManager ?s2 rid = (Inl ?err, ?s4)"
    using q by (simp add: wait_for_response_def Let_def)
  have p: "process_request loads dumps created e (started Established) rid request []
             = (Inl (NameError ''background_tasks''),
                emit (Log LError ''Error processing request'') ?s4)"
    by (simp add: process_request_def Let_def receive_def w respond_def)
  have h: "handle_request loads dumps created e (started Established) rid request []
             = (Inl (NameError ''background_tasks''),
                emit (Log LError ''Error processing request'') ?s4)"
    by (simp add: handle_request_def p)
  have "Unregistered rid \<notin> set (trace ?s1)"
    by (simp add: created_request started_trace)
  then have "Unregistered rid \<notin> set (trace ?s2)"
    by (rule send_no_unregistered)
  then have u: "Unregistered rid \<notin> set (trace (emit (Log LError ''Error processing request'') ?s4))"
    by simp
  have l: "listeners (emit (Log LError ''Error processing request'') ?s4) rid = Some 0"
    using q by simp
  show ?thesis
    unfolding h p w using u l by simp
qed

theorem unary_timeout_leaves_listener_registered_witness:
  "fst (handle_request (\<lambda>m. JSONDecodeError) (\<lambda>j. ''frame'') 1700000000
          \<lparr>handshake = Established, write_ok = True, close_ok = True, recv = Cancelled\<rparr>
          (started Established) ''r1''
          (JObj [(''method'', JStr ''completion/getCompletion''),
                 (''args'', JObj [(''model'', JStr ''gpt-4o'')]),
                 (''requestId'', JStr ''r1'')]) [])
     = Inl (NameError ''background_tasks'')
   \<and> listeners (snd (handle_request (\<lambda>m. JSONDecodeError) (\<lambda>j. ''frame'') 1700000000
          \<lparr>handshake = Established, write_ok = True, close_ok = True, recv = Cancelled\<rparr>
          (started Established) ''r1''
          (JObj [(''method'', JStr ''completion/getCompletion''),
                 (''args'', JObj [(''model'', JStr ''gpt-4o'')]),
                 (''requestId'', JStr ''r1'')]) [])) ''r1'' = Some 0"
  using unary_timeout_leaves_listener_registered
          [where e = "\<lparr>handshake = Established, write_ok = True, close_ok = True, recv = Cancelled\<rparr>"
             and rid = "''r1''" and loads = "\<lambda>m. JSONDecodeError" and dumps = "\<lambda>j. ''frame''"
             and created = 1700000000
             and request = "JObj [(''method'', JStr ''completion/getCompletion''),
                                  (''args'', JObj [(''model'', JStr ''gpt-4o'')]),
                                  (''requestId'', JStr ''r1'')]"]
  by simp

text \<open>
  C5. For a request whose id \<open>r1\<close> is not registered yet and whose \<^verbatim>\<open>args\<close> hold a
  model, when the frame routed during the wait decodes to
  \<^verbatim>\<open>{requestId: "r1", code: 200, response: "hi", tokens_burned: 3}\<close>,
  \<^verbatim>\<open>process_request\<close> returns the completion object whose message content is \<open>hi\<close> and
  whose completion token usage is 3, whatever the socket did with the outbound frame.
\<close>

theorem unary_delivery_returns_completion:
  assumes "loads frame = Decoded (JObj [(''requestId'', JStr ''r1''), (''code'', JInt 200),
                                        (''response'', JStr ''hi''), (''tokens_burned'', JInt 3)])"
    and "listeners s ''r1'' = None"
    and "subscript request ''args'' = Inr args"
    and "subscript args ''model'' = Inr model"
  shows "fst (process_request loads dumps created e s ''r1'' request [frame])
     = Inr (JSONResponse
         (JObj [(''id'', JStr ''r1''),
                (''object'', JStr ''chat.completion''),
                (''created'', JInt created),
                (''model'', model),
                (''choices'', JArr [JObj [(''index'', JInt 0),
                                          (''message'', JObj [(''role'', JStr ''assistant''),
                                                              (''content'', JStr ''hi'')]),
                                          (''finish_reason'', JNull)]]),
                (''usage'', JObj [(''prompt_tokens'', JInt 0),
                                  (''completion_tokens'', JInt 3),
                                  (''total_tokens'', JInt 3)])]))"
proof -
  let ?kvs = "[(''requestId'', JStr ''r1''), (''code'', JInt 200),
               (''response'', JStr ''hi''), (''tokens_burned'', JInt 3)]"
  let ?s1 = "snd (create_request (emit (Log LInfo ''Processing non-stream request'') s) ''r1'')"
  let ?s2 = "snd (send e ?s1 (dumps request) ''r1'')"
  let ?r = "next_ref s"
  have s1: "listeners ?s1 ''r1'' = Some ?r" "request_queues ?s1 ''r1'' = Some ?r"
    "store ?s1 ?r = new_queue"
    using assms(2)
    by (simp_all add: create_request_def create_queue_def register_listener_def Let_def)
  have s2: "listeners ?s2 ''r1'' = Some ?r" "request_queues ?s2 ''r1'' = Some ?r"
    "store ?s2 ?r = new_queue"
    using s1 by simp_all
  let ?s3 = "receive loads ?s2 [frame]"
  have s3: "request_queues ?s3 ''r1'' = Some ?r" "items (store ?s3 ?r) = [JObj ?kvs]"
    using s2 assms(1)
    by (simp_all add: receive_def route_message_def deliver_def Let_def put_nowait_def full_def
          new_queue_def get_or_def)
  have w: "fst (wait_for_response RequestManager ?s3 ''r1'') = Inr (JObj ?kvs)"
    using s3 by (simp add: wait_for_response_def Let_def get_or_def)
  obtain x where wx: "wait_for_response RequestManager ?s3 ''r1'' = (Inr (JObj ?kvs), x)"
    using w by (cases "wait_for_response RequestManager ?s3 ''r1''") simp
  have r: "respond ''r1'' created request (Inr (JObj ?kvs))
          = Inr (JSONResponse (completion ''r1'' created model ?kvs))"
    using assms(3,4) by (simp add: respond_def get_or_def)
  have "fst (process_request loads dumps created e s ''r1'' request [frame])
          = Inr (JSONResponse (completion ''r1'' created model ?kvs))"
    by (simp add: process_request_def Let_def wx r)
  then show ?thesis
    by (simp add: completion_def get_or_def)
qed

theorem unary_delivery_returns_completion_witness:
  "fst (process_request
         (\<lambda>m. Decoded (JObj [(''requestId'', JStr ''r1''), (''code'', JInt 200),
                              (''response'', JStr ''hi''), (''tokens_burned'', JInt 3)]))
         (\<lambda>j. ''frame'') 1700000000
         \<lparr>handshake = Established, write_ok = True, close_ok = True, recv = Cancelled\<rparr>
         init ''r1''
         (JObj [(''method'', JStr ''completion/getCompletion''),
                (''args'', JObj [(''model'', JStr ''gpt-4o'')]),
                (''requestId'', JStr ''r1'')])
         [''reply''])
     = Inr (JSONResponse
         (JObj [(''id'', JStr ''r1''),
                (''object'', JStr ''chat.completion''),
                (''created'', JInt 1700000000),
                (''model'', JStr ''gpt-4o''),
                (''choices'', JArr [JObj [(''index'', JInt 0),
                                          (''message'', JObj [(''role'', JStr ''assistant''),
                                                              (''content'', JStr ''hi'')]),
                                          (''finish_reason'', JNull)]]),
                (''usage'', JObj [(''prompt_tokens'', JInt 0),
                                  (''completion_tokens'', JInt 3),
                                  (''total_tokens'', JInt 3)])]))"
  using unary_delivery_returns_completion
          [of "\<lambda>m. Decoded (JObj [(''requestId'', JStr ''r1''), (''code'', JInt 200),
                                    (''response'', JStr ''hi''), (''tokens_burned'', JInt 3)])"
              "''reply''" init
              "JObj [(''method'', JStr ''completion/getCompletion''),
                     (''args'', JObj [(''model'', JStr ''gpt-4o'')]),
                     (''requestId'', JStr ''r1'')]"
              "JObj [(''model'', JStr ''gpt-4o'')]" "JStr ''gpt-4o''"
              "\<lambda>j. ''frame''" 1700000000
              "\<lparr>handshake = Established, write_ok = True, close_ok = True, recv = Cancelled\<rparr>"]
  by (simp add: init_def)

section \<open>The stream generator\<close>

lemma stream_loop_chunks:
  "\<forall>kvs \<in> set kvss. \<forall>v. map_of kvs ''isStreamEnd'' = Some v \<longrightarrow> \<not> truthy v \<Longrightarrow>
   stream_loop dumps clock rid model k (map JObj kvss)
     = (map (\<lambda>(i, kvs). chunk_event dumps rid model (clock i) (get_or kvs ''chunk'' (JStr '''')))
          (enumerate k kvss) @ [timeout_marker],
        TimedOut, [])"
proof (induction kvss arbitrary: k)
  case Nil
  then show ?case by simp
next
  case (Cons kvs kvss)
  have "\<not> (case map_of kvs ''isStreamEnd'' of None \<Rightarrow> False | Some v \<Rightarrow> truthy v)"
    using Cons.prems by (auto split: option.splits)
  moreover have "stream_loop dumps clock rid model (Suc k) (map JObj kvss)
     = (map (\<lambda>(i, kvs). chunk_event dumps rid model (clock i) (get_or kvs ''chunk'' (JStr '''')))
          (enumerate (Suc k) kvss) @ [timeout_marker],
        TimedOut, [])"
    using Cons.prems by (intro Cons.IH) simp
  ultimately show ?case by simp
qed

text \<open>
  C6. A stream whose queue delivers two chunk messages (each with a \<^verbatim>\<open>chunk\<close> field
  and no \<^verbatim>\<open>isStreamEnd\<close>) and then a message with a truthy \<^verbatim>\<open>isStreamEnd\<close>: the
  generator yields two events, in order, each \<^verbatim>\<open>data: \<close> followed by the serialised
  completion-chunk object whose delta content is the chunk text of its message and by
  two newlines; then it yields \<^verbatim>\<open>data: [DONE]\n\n\<close> and ends there; whatever was
  queued behind the sentinel is left in the queue unread.
\<close>

theorem stream_yields_two_chunks_then_done:
  assumes "stream_manager_queues s rid = Some r"
    and "items (store s r) = JObj k1 # JObj k2 # JObj ke # rest"
    and "map_of k1 ''isStreamEnd'' = None" and "map_of k1 ''chunk'' = Some c1"
    and "map_of k2 ''isStreamEnd'' = None" and "map_of k2 ''chunk'' = Some c2"
    and "map_of ke ''isStreamEnd'' = Some v" and "truthy v"
  shows "fst (generate_stream dumps clock s rid model)
           = ([''data: '' @ dumps (JObj [(''id'', JStr rid),
                                         (''object'', JStr ''chat.completion.chunk''),
                                         (''created'', JInt (clock 0)),
                                         (''model'', model),
                                         (''choices'', JArr [JObj [(''index'', JInt 0),
                                                                   (''delta'', JObj [(''content'', c1)]),
                                                                   (''finish_reason'', JNull)]])])
                 @ [CHR 0x0A, CHR 0x0A],
               ''data: '' @ dumps (JObj [(''id'', JStr rid),
                                         (''object'', JStr ''chat.completion.chunk''),
                                         (''created'', JInt (clock 1)),
                                         (''model'', model),
                                         (''choices'', JArr [JObj [(''index'', JInt 0),
                                                                   (''delta'', JObj [(''content'', c2)]),
                                                                   (''finish_reason'', JNull)]])])
                 @ [CHR 0x0A, CHR 0x0A],
               ''data: [DONE]'' @ [CHR 0x0A, CHR 0x0A]], Done)
         \<and> items (store (snd (generate_stream dumps clock s rid model)) r) = rest"
  using assms
  by (simp add: generate_stream_def Let_def get_or_def done_marker_def chunk_event_def
        chunk_object_def)

theorem stream_yields_two_chunks_then_done_witness:
  "fst (generate_stream
         (\<lambda>j. case j of
                JObj kvs \<Rightarrow>
                  (case map_of kvs ''choices'' of
                     Some (JArr [JObj c]) \<Rightarrow>
                       (case map_of c ''delta'' of
                          Some (JObj d) \<Rightarrow>
                            (case map_of d ''content'' of
                               Some (JStr x) \<Rightarrow> ''{content: '' @ x @ ''}''
                             | _ \<Rightarrow> ''?'')
                        | _ \<Rightarrow> ''?'')
                   | _ \<Rightarrow> ''?'')
              | _ \<Rightarrow> ''?'')
         (\<lambda>k. 1700000000)
         (receive (\<lambda>m. if m = ''end'' then Decoded (JObj [(''requestId'', JStr ''r2''),
                                                               (''isStreamEnd'', JBool True)])
                        else Decoded (JObj [(''requestId'', JStr ''r2''), (''chunk'', JStr m)]))
            (snd (create_stream init ''r2'')) [''Hel'', ''lo'', ''end'', ''late''])
         ''r2'' (JStr ''unknown''))
     = ([''data: {content: Hel}'' @ [CHR 0x0A, CHR 0x0A],
         ''data: {content: lo}'' @ [CHR 0x0A, CHR 0x0A],
         ''data: [DONE]'' @ [CHR 0x0A, CHR 0x0A]], Done)"
  using stream_yields_two_chunks_then_done
          [where s = "receive (\<lambda>m. if m = ''end'' then Decoded (JObj [(''requestId'', JStr ''r2''),
                                                               (''isStreamEnd'', JBool True)])
                        else Decoded (JObj [(''requestId'', JStr ''r2''), (''chunk'', JStr m)]))
                        (snd (create_stream init ''r2'')) [''Hel'', ''lo'', ''end'', ''late'']"
             and rid = "''r2''" and r = 0
             and ?k1.0 = "[(''requestId'', JStr ''r2''), (''chunk'', JStr ''Hel'')]"
             and ?k2.0 = "[(''requestId'', JStr ''r2''), (''chunk'', JStr ''lo'')]"
             and ke = "[(''requestId'', JStr ''r2''), (''isStreamEnd'', JBool True)]"
             and rest = "[]" and ?c1.0 = "JStr ''Hel''" and ?c2.0 = "JStr ''lo''" and v = "JBool True"
             and clock = "\<lambda>k. 1700000000" and model = "JStr ''unknown''"
             and dumps = "(\<lambda>j. case j of
                JObj kvs \<Rightarrow>
                  (case map_of kvs ''choices'' of
                     Some (JArr [JObj c]) \<Rightarrow>
                       (case map_of c ''delta'' of
                          Some (JObj d) \<Rightarrow>
                            (case map_of d ''content'' of
                               Some (JStr x) \<Rightarrow> ''{content: '' @ x @ ''}''
                             | _ \<Rightarrow> ''?'')
                        | _ \<Rightarrow> ''?'')
                   | _ \<Rightarrow> ''?'')
              | _ \<Rightarrow> ''?'')"]
  by (simp add: init_def create_stream_def create_queue_def register_listener_def Let_def
        receive_def route_message_def deliver_def put_nowait_def full_def new_queue_def
        get_or_def unregister_listener_def emit_def)

text \<open>
  C9. When every message the queue delivers is a dict without a truthy
  \<^verbatim>\<open>isStreamEnd\<close>, each is emitted, in order, as \<^verbatim>\<open>data: \<close> followed by the
  serialised completion-chunk object and two newlines, the delta content of the object
  being the \<^verbatim>\<open>chunk\<close> field or, without that field, the empty string; the stream
  then ends on the idle timeout. So an upstream error frame (\<^verbatim>\<open>code\<close> and
  \<^verbatim>\<open>message\<close>, no \<^verbatim>\<open>chunk\<close>) comes out as a chunk event of empty content, not
  as an error or a terminal marker.
\<close>

theorem stream_emits_every_message_as_chunk:
  assumes "stream_manager_queues s rid = Some r"
    and "items (store s r) = map JObj kvss"
    and "\<forall>kvs \<in> set kvss. \<forall>v. map_of kvs ''isStreamEnd'' = Some v \<longrightarrow> \<not> truthy v"
  shows "fst (generate_stream dumps clock s rid model)
           = (map (\<lambda>(i, kvs).
                     ''data: '' @ dumps (JObj [(''id'', JStr rid),
                                               (''object'', JStr ''chat.completion.chunk''),
                                               (''created'', JInt (clock i)),
                                               (''model'', model),
                                               (''choices'', JArr [JObj [(''index'', JInt 0),
                                                  (''delta'', JObj [(''content'',
                                                     (case map_of kvs ''chunk'' of
                                                        None \<Rightarrow> JStr ''''
                                                      | Some c \<Rightarrow> c))]),
                                                  (''finish_reason'', JNull)]])])
                       @ [CHR 0x0A, CHR 0x0A])
                (enumerate 0 kvss) @ [''data: [TIMEOUT]'' @ [CHR 0x0A, CHR 0x0A]],
              TimedOut)"
  using assms stream_loop_chunks[of kvss dumps clock rid model 0]
  by (simp add: generate_stream_def Let_def get_or_def timeout_marker_def chunk_event_def
        chunk_object_def)

theorem stream_emits_every_message_as_chunk_witness:
  "fst (generate_stream
         (\<lambda>j. case j of
                JObj kvs \<Rightarrow>
                  (case map_of kvs ''choices'' of
                     Some (JArr [JObj c]) \<Rightarrow>
                       (case map_of c ''delta'' of
                          Some (JObj d) \<Rightarrow>
                            (case map_of d ''content'' of
                               Some (JStr x) \<Rightarrow> ''{content: '' @ x @ ''}''
                             | _ \<Rightarrow> ''?'')
                        | _ \<Rightarrow> ''?'')
                   | _ \<Rightarrow> ''?'')
              | _ \<Rightarrow> ''?'')
         (\<lambda>k. 1700000000)
         (receive (\<lambda>m. Decoded (JObj [(''requestId'', JStr ''r2''), (''code'', JInt 500),
                                       (''message'', JStr ''upstream failed'')]))
            (snd (create_stream init ''r2'')) [''error''])
         ''r2'' (JStr ''unknown''))
     = ([''data: {content: }'' @ [CHR 0x0A, CHR 0x0A],
         ''data: [TIMEOUT]'' @ [CHR 0x0A, CHR 0x0A]], TimedOut)"
  using stream_emits_every_message_as_chunk
          [where s = "receive (\<lambda>m. Decoded (JObj [(''requestId'', JStr ''r2''), (''code'', JInt 500),
                                       (''message'', JStr ''upstream failed'')]))
                        (snd (create_stream init ''r2'')) [''error'']"
             and rid = "''r2''" and r = 0
             and kvss = "[[(''requestId'', JStr ''r2''), (''code'', JInt 500),
                          (''message'', JStr ''upstream failed'')]]"
             and clock = "\<lambda>k. 1700000000" and model = "JStr ''unknown''"
             and dumps = "(\<lambda>j. case j of
                JObj kvs \<Rightarrow>
                  (case map_of kvs ''choices'' of
                     Some (JArr [JObj c]) \<Rightarrow>
                       (case map_of c ''delta'' of
                          Some (JObj d) \<Rightarrow>
                            (case map_of d ''content'' of
                               Some (JStr x) \<Rightarrow> ''{content: '' @ x @ ''}''
                             | _ \<Rightarrow> ''?'')
                        | _ \<Rightarrow> ''?'')
                   | _ \<Rightarrow> ''?'')
              | _ \<Rightarrow> ''?'')"]
  by (simp add: init_def create_stream_def create_queue_def register_listener_def Let_def
        receive_def route_message_def deliver_def put_nowait_def full_def new_queue_def
        get_or_def emit_def)

section \<open>Wallet authentication\<close>

lemma route_authenticated [simp]:
  "authenticated_addresses (route_message loads s m) = authenticated_addresses s"
  by (auto simp: route_message_def deliver_def Let_def
           split: decoded.splits json.splits option.splits sum.splits)

lemma receive_authenticated [simp]:
  "authenticated_addresses (receive loads s ms) = authenticated_addresses s"
proof (induction ms arbitrary: s)
  case Nil
  then show ?case by (simp add: receive_def)
next
  case (Cons m ms)
  have "receive loads s (m # ms) = receive loads (route_message loads s m) ms"
    by (simp add: receive_def)
  then show ?case by (simp add: Cons.IH)
qed

lemma register_authenticated [simp]:
  "authenticated_addresses (snd (register_listener s rid)) = authenticated_addresses s"
  by (cases "listeners s rid") (simp_all add: register_listener_def Let_def)

lemma auth_begin_authenticated:
  "authenticated_addresses (snd (auth_begin loads dumps e s w u ds dw)) = authenticated_addresses s"
  by (simp add: auth_begin_def Let_def split: prod.splits)
     (metis register_authenticated receive_authenticated send_fields(7) emit_fields(12) snd_conv)

text \<open>
  C10. \<^verbatim>\<open>authenticate_wallet\<close> always returns a boolean. It returns \<^verbatim>\<open>True\<close> exactly
  when the wait on its queue delivers a non-empty dict whose \<^verbatim>\<open>code\<close> is 200, and
  then the address is appended to the authenticated list; on any other delivery, on an
  empty queue (the timeout) and on a delivery that is not a dict (the internal
  exception) it returns \<^verbatim>\<open>False\<close> and the list is unchanged. On every path the
  listener of its correlation id is unregistered when it returns.
\<close>

theorem authenticate_wallet_outcomes:
  "(fst (authenticate_wallet loads dumps e s w u ds dw)
      \<longleftrightarrow> (\<exists>kvs rest.
             items (store (snd (auth_begin loads dumps e s w u ds dw))
                          (fst (auth_begin loads dumps e s w u ds dw))) = JObj kvs # rest
             \<and> kvs \<noteq> [] \<and> is_200 (get_or kvs ''code'' JNull)))
   \<and> (items (store (snd (auth_begin loads dumps e s w u ds dw))
                    (fst (auth_begin loads dumps e s w u ds dw))) = []
        \<longrightarrow> \<not> fst (authenticate_wallet loads dumps e s w u ds dw))
   \<and> authenticated_addresses (snd (authenticate_wallet loads dumps e s w u ds dw))
       = authenticated_addresses s @ (if fst (authenticate_wallet loads dumps e s w u ds dw) then [w] else [])
   \<and> listeners (snd (authenticate_wallet loads dumps e s w u ds dw)) u = None"
proof -
  obtain r s1 where b: "auth_begin loads dumps e s w u ds dw = (r, s1)"
    by (cases "auth_begin loads dumps e s w u ds dw")
  have a: "authenticated_addresses s1 = authenticated_addresses s"
    using auth_begin_authenticated[of loads dumps e s w u ds dw] b by simp
  have f: "authenticate_wallet loads dumps e s w u ds dw = auth_finish s1 w u r"
    by (simp add: authenticate_wallet_def b)
  show ?thesis
  proof (cases "items (store s1 r)")
    case Nil
    then show ?thesis
      by (simp add: f b a auth_finish_def)
  next
    case (Cons response rest)
    show ?thesis
    proof (cases response)
      case (JObj kvs)
      then show ?thesis
        using Cons by (simp add: f b a auth_finish_def Let_def)
    qed (use Cons in \<open>simp_all add: f b a auth_finish_def Let_def\<close>)
  qed
qed

theorem authenticate_wallet_outcomes_witness:
  "authenticate_wallet
      (\<lambda>m. Decoded (JObj [(''requestId'', JStr ''u1''), (''code'', JInt 200)]))
      (\<lambda>j. ''frame'')
      \<lparr>handshake = Established, write_ok = True, close_ok = True, recv = Cancelled\<rparr>
      init ''0xabc'' ''u1'' [] []
    = (False,
       unregister_listener
         (emit (Log LError ''Authentication timeout for wallet'')
            (snd (auth_begin
                   (\<lambda>m. Decoded (JObj [(''requestId'', JStr ''u1''), (''code'', JInt 200)]))
                   (\<lambda>j. ''frame'')
                   \<lparr>handshake = Established, write_ok = True, close_ok = True, recv = Cancelled\<rparr>
                   init ''0xabc'' ''u1'' [] []))) ''u1'')
   \<and> fst (authenticate_wallet
      (\<lambda>m. Decoded (JObj [(''requestId'', JStr ''u1''), (''code'', JInt 200)]))
      (\<lambda>j. ''frame'')
      \<lparr>handshake = Established, write_ok = True, close_ok = True, recv = Cancelled\<rparr>
      init ''0xabc'' ''u1'' [] [''reply''])
   \<and> authenticated_addresses (snd (authenticate_wallet
      (\<lambda>m. Decoded (JObj [(''requestId'', JStr ''u1''), (''code'', JInt 200)]))
      (\<lambda>j. ''frame'')
      \<lparr>handshake = Established, write_ok = True, close_ok = True, recv = Cancelled\<rparr>
      init ''0xabc'' ''u1'' [] [''reply''])) = [''0xabc'']
   \<and> \<not> fst (authenticate_wallet
      (\<lambda>m. Decoded (JObj [(''requestId'', JStr ''u1''), (''code'', JInt 200)]))
      (\<lambda>j. ''frame'')
      \<lparr>handshake = Established, write_ok = True, close_ok = True, recv = Cancelled\<rparr>
      init ''0xabc'' ''u1'' [''reply''] [])"
  using authenticate_wallet_outcomes
          [of "\<lambda>m. Decoded (JObj [(''requestId'', JStr ''u1''), (''code'', JInt 200)])"
              "\<lambda>j. ''frame''"
              "\<lparr>handshake = Established, write_ok = True, close_ok = True, recv = Cancelled\<rparr>"
              init "''0xabc''" "''u1''" "[]" "[]"]
  by (simp add: authenticate_wallet_def auth_begin_def auth_finish_def init_def send_def
        write_frame_def connect_def register_listener_def Let_def receive_def route_message_def
        deliver_def put_nowait_def full_def new_queue_def get_or_def unregister_listener_def
        emit_def)

end
